theory Spec2Isabelle
  imports Complex_Main "HOL-Library.Word"
begin

unbundle bit_operations_syntax

section \<open>JSON values\<close>

text \<open>
  A string is the list of its UTF-16 code units, one \<open>char\<close> for each, so that
  \<open>length\<close> is \<open>.length\<close>; a \<open>char\<close> holds a code unit below 256.

  Fields typed \<open>unknown\<close> in the source (\<open>input\<close>, \<open>input_schema\<close>, the elements of a
  \<open>tool_result\<close> content array) hold parsed JSON. An absent field (\<open>undefined\<close>) is
  \<open>None\<close> at the field. An object is the list of its entries in enumeration order.
  The code never computes with a number: it only serializes it and tests its
  truthiness. So a number is represented by these two observations, the text that
  \<open>JSON.stringify\<close> gives for it and whether it is truthy (it is not \<open>0\<close>, \<open>-0\<close> or
  \<open>NaN\<close>), and no floating-point arithmetic is modelled.
\<close>

datatype json = JNull | JBool bool | JNum (num_text: string) (num_truthy: bool) | JStr string
  | JArr "json list" | JObj "(string \<times> json) list"

text \<open>JavaScript truthiness, as tested by \<open>if (x)\<close> and \<open>x || y\<close>.\<close>

fun truthy_json :: "json \<Rightarrow> bool" where
  "truthy_json JNull = False"
| "truthy_json (JBool b) = b"
| "truthy_json (JNum t nz) = nz"
| "truthy_json (JStr s) = (s \<noteq> [])"
| "truthy_json (JArr xs) = True"
| "truthy_json (JObj kvs) = True"

text \<open>\<open>JSON.stringify\<close> on the values above.\<close>

fun hex_digit :: "nat \<Rightarrow> char" where
  "hex_digit d = (''0123456789abcdef'') ! (d mod 16)"

fun escape_char :: "char \<Rightarrow> string" where
  "escape_char c =
     (if c = CHR 0x22 then [CHR 0x5C, CHR 0x22]
      else if c = CHR 0x5C then [CHR 0x5C, CHR 0x5C]
      else if c = CHR 0x08 then [CHR 0x5C, CHR ''b'']
      else if c = CHR 0x0C then [CHR 0x5C, CHR ''f'']
      else if c = CHR 0x0A then [CHR 0x5C, CHR ''n'']
      else if c = CHR 0x0D then [CHR 0x5C, CHR ''r'']
      else if c = CHR 0x09 then [CHR 0x5C, CHR ''t'']
      else if (of_char c :: nat) < 32
        then [CHR 0x5C, CHR ''u'', CHR ''0'', CHR ''0'',
              hex_digit (of_char c div 16), hex_digit (of_char c mod 16)]
      else [c])"

definition quote :: "string \<Rightarrow> string" where
  "quote s = [CHR 0x22] @ concat (map escape_char s) @ [CHR 0x22]"

fun join :: "string \<Rightarrow> string list \<Rightarrow> string" where
  "join sep [] = []"
| "join sep [x] = x"
| "join sep (x # y # ys) = x @ sep @ join sep (y # ys)"

fun JSON_stringify :: "json \<Rightarrow> string" where
  "JSON_stringify JNull = ''null''"
| "JSON_stringify (JBool b) = (if b then ''true'' else ''false'')"
| "JSON_stringify (JNum t nz) = t"
| "JSON_stringify (JStr s) = quote s"
| "JSON_stringify (JArr xs) = ''['' @ join '','' (map JSON_stringify xs) @ '']''"
| "JSON_stringify (JObj kvs) =
     ''{'' @ join '','' (map (\<lambda>(k, v). quote k @ '':'' @ JSON_stringify v) kvs) @ ''}''"

section \<open>Data model\<close>

text \<open>
  A content block is one duck-typed object discriminated by its \<open>type\<close> string; every
  other field is optional. \<open>tool_result\<close> content is a string or an array.
\<close>

record image_source =
  src_type :: string
  media_type :: string
  data :: string

datatype tool_content = TCText string | TCArray "json list"

record block =
  b_type :: string
  b_text :: "string option"
  b_source :: "image_source option"
  b_id :: "string option"
  b_name :: "string option"
  b_input :: "json option"
  b_tool_use_id :: "string option"
  b_content :: "tool_content option"

datatype msg_content = Text string | Blocks "block list"

record message =
  role :: string
  content :: msg_content

record tool =
  t_name :: "string option"
  t_description :: "string option"
  t_input_schema :: "json option"

record anthropic_request =
  model :: string
  messages :: "message list"
  system :: "string option"
  tools :: "tool list option"
  max_tokens :: int
  temperature :: "real option"
  stream :: "bool option"

text \<open>The OpenAI-shaped request built by the request translator.\<close>

record openai_part =
  p_type :: string
  p_text :: "string option"
  p_image_url :: "string option"

datatype openai_content = OText string | OParts "openai_part list"

record openai_message =
  o_role :: string
  o_content :: openai_content

record openai_request =
  o_model :: string
  o_messages :: "openai_message list"
  o_max_tokens :: int
  o_temperature :: "real option"
  o_stream :: "bool option"

text \<open>The OpenAI-shaped response read by the response translator.\<close>

record openai_usage =
  prompt_tokens :: "int option"
  completion_tokens :: "int option"

record openai_choice_message =
  cm_content :: "string option"

record openai_choice =
  c_message :: "openai_choice_message option"
  finish_reason :: "string option"

record openai_response =
  r_id :: string
  choices :: "openai_choice list"
  r_usage :: "openai_usage option"

record anthropic_usage =
  input_tokens :: int
  output_tokens :: int

record anthropic_response =
  a_id :: string
  a_type :: string
  a_role :: string
  a_content :: "block list"
  a_model :: string
  stop_reason :: "string option"
  a_usage :: anthropic_usage

definition text_block :: "string \<Rightarrow> block" where
  "text_block t = \<lparr>b_type = ''text'', b_text = Some t, b_source = None, b_id = None,
     b_name = None, b_input = None, b_tool_use_id = None, b_content = None\<rparr>"

section \<open>Response translator\<close>

text \<open>\<open>response.choices[0]\<close>: \<open>undefined\<close> on an empty array.\<close>

definition first_choice :: "openai_response \<Rightarrow> openai_choice option" where
  "first_choice response = (case choices response of [] \<Rightarrow> None | c # _ \<Rightarrow> Some c)"

text \<open>\<open>choice?.message?.content\<close>: the text, or \<open>None\<close> for \<open>undefined\<close>/\<open>null\<close>.\<close>

definition choice_text :: "openai_choice option \<Rightarrow> string option" where
  "choice_text choice =
     (case choice of None \<Rightarrow> None
      | Some c \<Rightarrow> (case c_message c of None \<Rightarrow> None | Some m \<Rightarrow> cm_content m))"

text \<open>\<open>choice?.finish_reason\<close>.\<close>

definition choice_finish_reason :: "openai_choice option \<Rightarrow> string option" where
  "choice_finish_reason choice =
     (case choice of None \<Rightarrow> None | Some c \<Rightarrow> finish_reason c)"

text \<open>\<open>x || 0\<close> on an optional number: absent and zero both give zero.\<close>

definition or_zero :: "int option \<Rightarrow> int" where
  "or_zero x = (case x of None \<Rightarrow> 0 | Some n \<Rightarrow> (if n = 0 then 0 else n))"

definition convertOpenAIToAnthropic :: "openai_response \<Rightarrow> string \<Rightarrow> anthropic_response" where
  "convertOpenAIToAnthropic response originalModel =
     (let choice = first_choice response;
          content0 = (case choice_text choice of
                        None \<Rightarrow> []
                      | Some t \<Rightarrow> (if t \<noteq> [] then [text_block t] else []))
      in \<lparr>a_id = r_id response,
          a_type = ''message'',
          a_role = ''assistant'',
          a_content = content0,
          a_model = originalModel,
          stop_reason = (if choice_finish_reason choice = Some ''stop''
                         then Some ''end_turn'' else None),
          a_usage = \<lparr>input_tokens =
                       or_zero (case r_usage response of None \<Rightarrow> None
                                | Some u \<Rightarrow> prompt_tokens u),
                     output_tokens =
                       or_zero (case r_usage response of None \<Rightarrow> None
                                | Some u \<Rightarrow> completion_tokens u)\<rparr>\<rparr>)"

section \<open>Request translator\<close>

text \<open>A string-valued optional field is truthy when it is present and not empty.\<close>

definition truthy_str :: "string option \<Rightarrow> bool" where
  "truthy_str x = (case x of None \<Rightarrow> False | Some s \<Rightarrow> s \<noteq> [])"

definition text_part :: "string \<Rightarrow> openai_part" where
  "text_part t = \<lparr>p_type = ''text'', p_text = Some t, p_image_url = None\<rparr>"

definition image_part :: "string \<Rightarrow> openai_part" where
  "image_part url = \<lparr>p_type = ''image_url'', p_text = None, p_image_url = Some url\<rparr>"

text \<open>The template literal \<open>data:${media_type};base64,${data}\<close>.\<close>

definition data_uri :: "image_source \<Rightarrow> string" where
  "data_uri src = ''data:'' @ media_type src @ '';base64,'' @ data src"

text \<open>
  The body of the inner loop: a \<open>text\<close> block pushes \<open>block.text || ''\<close>, an
  \<open>image\<close> block with a source pushes an \<open>image_url\<close> part, and there is no
  \<open>else\<close> branch.
\<close>

definition push_block :: "block \<Rightarrow> openai_part list \<Rightarrow> openai_part list" where
  "push_block block content0 =
     (if b_type block = ''text''
        then content0 @ [text_part (case b_text block of None \<Rightarrow> [] | Some t \<Rightarrow> t)]
      else if b_type block = ''image''
        then (case b_source block of
                None \<Rightarrow> content0
              | Some src \<Rightarrow> content0 @ [image_part (data_uri src)])
      else content0)"

fun convert_blocks :: "block list \<Rightarrow> openai_part list \<Rightarrow> openai_part list" where
  "convert_blocks [] content0 = content0"
| "convert_blocks (block # rest) content0 = convert_blocks rest (push_block block content0)"

definition push_message :: "message \<Rightarrow> openai_message list \<Rightarrow> openai_message list" where
  "push_message msg messages0 =
     (case content msg of
        Text s \<Rightarrow> messages0 @ [\<lparr>o_role = role msg, o_content = OText s\<rparr>]
      | Blocks bs \<Rightarrow>
          messages0 @ [\<lparr>o_role = role msg, o_content = OParts (convert_blocks bs [])\<rparr>])"

fun convert_messages :: "message list \<Rightarrow> openai_message list \<Rightarrow> openai_message list" where
  "convert_messages [] messages0 = messages0"
| "convert_messages (msg # rest) messages0 = convert_messages rest (push_message msg messages0)"

definition system_message :: "string option \<Rightarrow> openai_message list" where
  "system_message sys =
     (case sys of
        None \<Rightarrow> []
      | Some s \<Rightarrow> (if s \<noteq> [] then [\<lparr>o_role = ''system'', o_content = OText s\<rparr>] else []))"

definition convertAnthropicToOpenAI :: "anthropic_request \<Rightarrow> openai_request" where
  "convertAnthropicToOpenAI request =
     \<lparr>o_model = model request,
      o_messages = convert_messages (messages request) (system_message (system request)),
      o_max_tokens = max_tokens request,
      o_temperature = temperature request,
      o_stream = stream request\<rparr>"

text \<open>
  The block-by-block mapping in the words of the specification, as amended: what one
  block contributes to the translated content.
\<close>

definition translate_block :: "block \<Rightarrow> openai_part list" where
  "translate_block block =
     (if b_type block = ''text''
        then [\<lparr>p_type = ''text'',
               p_text = Some (case b_text block of None \<Rightarrow> [] | Some t \<Rightarrow> t),
               p_image_url = None\<rparr>]
      else if b_type block = ''image'' \<and> b_source block \<noteq> None
        then [\<lparr>p_type = ''image_url'', p_text = None,
               p_image_url = map_option
                 (\<lambda>src. ''data:'' @ media_type src @ '';base64,'' @ data src)
                 (b_source block)\<rparr>]
      else [])"

text \<open>
  The message-by-message mapping in the words of the specification: string content
  passes through, block-array content is mapped block by block.
\<close>

definition translate_message :: "message \<Rightarrow> openai_message" where
  "translate_message msg =
     \<lparr>o_role = role msg,
      o_content = (case content msg of
                     Text s \<Rightarrow> OText s
                   | Blocks bs \<Rightarrow> OParts (concat (map translate_block bs)))\<rparr>"

section \<open>Request preprocessing\<close>

definition normalize_block :: "block \<Rightarrow> block" where
  "normalize_block block =
     (if b_type block = ''tool_result''
        then (case b_tool_use_id block of
                None \<Rightarrow> block
              | Some toolUseId \<Rightarrow>
                  (if toolUseId \<noteq> [] then block\<lparr>b_id := Some toolUseId\<rparr> else block))
      else block)"

definition normalize_message :: "message \<Rightarrow> message" where
  "normalize_message msg =
     (case content msg of
        Text s \<Rightarrow> msg
      | Blocks bs \<Rightarrow> msg\<lparr>content := Blocks (map normalize_block bs)\<rparr>)"

definition normalizeToolIds :: "anthropic_request \<Rightarrow> anthropic_request" where
  "normalizeToolIds req = req\<lparr>messages := map normalize_message (messages req)\<rparr>"

text \<open>\<open>req.messages[req.messages.length - 1]\<close>: \<open>undefined\<close> on an empty array.\<close>

definition last_message :: "anthropic_request \<Rightarrow> message option" where
  "last_message req = (if messages req = [] then None else Some (last (messages req)))"

definition fixTrailingAssistant :: "anthropic_request \<Rightarrow> anthropic_request" where
  "fixTrailingAssistant req =
     (case last_message req of
        None \<Rightarrow> req
      | Some lastMsg \<Rightarrow>
          (if role lastMsg = ''assistant''
             then req\<lparr>messages := messages req @ [\<lparr>role = ''user'', content = Text ''Continue.''\<rparr>]\<rparr>
           else req))"

section \<open>Token counting\<close>

text \<open>
  The tokenizer (\<open>enc.encode\<close> of the tiktoken library) is a parameter: it maps a text
  to the number of tokens of its encoding, or raises, which is \<open>None\<close>.
\<close>

type_synonym encoder = "string \<Rightarrow> nat option"

text \<open>
  \<open>countTokens\<close>: the \<open>catch\<close> branch returns \<open>Math.ceil(text.length / 4)\<close>. The
  function reads the text through the tokenizer and its length only, so it is defined
  for code units of any type; \<open>length\<close> counts code units, as \<open>.length\<close> does.
\<close>

definition countTokens :: "('c list \<Rightarrow> nat option) \<Rightarrow> 'c list \<Rightarrow> nat" where
  "countTokens enc text =
     (case enc text of
        Some n \<Rightarrow> n
      | None \<Rightarrow> nat \<lceil>real (length text) / 4\<rceil>)"

text \<open>\<open>estimateRequestTokens\<close> (legacy): the count of the serialized messages.\<close>

definition estimateRequestTokens :: "encoder \<Rightarrow> json \<Rightarrow> nat" where
  "estimateRequestTokens enc messages0 = countTokens enc (JSON_stringify messages0)"

text \<open>
  \<open>calculateTokenCount\<close> calls \<open>enc.encode\<close> directly, outside any \<open>try\<close>: an
  exception of the tokenizer leaves the function, which is the result \<open>None\<close>.
  \<open>tokenCount += enc.encode(s).length\<close> is \<open>add_encoded\<close>.
\<close>

definition add_encoded :: "encoder \<Rightarrow> string \<Rightarrow> nat \<Rightarrow> nat option" where
  "add_encoded enc s tokenCount =
     (case enc s of None \<Rightarrow> None | Some n \<Rightarrow> Some (tokenCount + n))"

definition truthy_input :: "json option \<Rightarrow> bool" where
  "truthy_input x = (case x of None \<Rightarrow> False | Some j \<Rightarrow> truthy_json j)"

text \<open>
  The body of the loop over the blocks of a message. A \<open>tool_result\<close> block without
  content hands \<open>JSON.stringify(undefined)\<close>, that is \<open>undefined\<close>, to the tokenizer,
  which takes strings only and raises.
\<close>

definition count_block :: "encoder \<Rightarrow> block \<Rightarrow> nat \<Rightarrow> nat option" where
  "count_block enc block tokenCount =
     (if b_type block = ''text'' \<and> truthy_str (b_text block)
        then (case b_text block of
                None \<Rightarrow> Some tokenCount
              | Some t \<Rightarrow> add_encoded enc t tokenCount)
      else if b_type block = ''tool_use'' \<and> truthy_input (b_input block)
        then (case b_input block of
                None \<Rightarrow> Some tokenCount
              | Some j \<Rightarrow> add_encoded enc (JSON_stringify j) tokenCount)
      else if b_type block = ''tool_result''
        then (case b_content block of
                None \<Rightarrow> None
              | Some (TCText s) \<Rightarrow> add_encoded enc s tokenCount
              | Some (TCArray xs) \<Rightarrow> add_encoded enc (JSON_stringify (JArr xs)) tokenCount)
      else Some tokenCount)"

fun count_blocks :: "encoder \<Rightarrow> block list \<Rightarrow> nat \<Rightarrow> nat option" where
  "count_blocks enc [] tokenCount = Some tokenCount"
| "count_blocks enc (block # rest) tokenCount =
     (case count_block enc block tokenCount of
        None \<Rightarrow> None
      | Some tokenCount' \<Rightarrow> count_blocks enc rest tokenCount')"

definition count_message :: "encoder \<Rightarrow> message \<Rightarrow> nat \<Rightarrow> nat option" where
  "count_message enc msg tokenCount =
     (case content msg of
        Text s \<Rightarrow> add_encoded enc s tokenCount
      | Blocks bs \<Rightarrow> count_blocks enc bs tokenCount)"

fun count_messages :: "encoder \<Rightarrow> message list \<Rightarrow> nat \<Rightarrow> nat option" where
  "count_messages enc [] tokenCount = Some tokenCount"
| "count_messages enc (msg # rest) tokenCount =
     (case count_message enc msg tokenCount of
        None \<Rightarrow> None
      | Some tokenCount' \<Rightarrow> count_messages enc rest tokenCount')"

text \<open>The system prompt is a string or an array of blocks.\<close>

datatype system_prompt = SysText string | SysBlocks "block list"

definition count_system_item :: "encoder \<Rightarrow> block \<Rightarrow> nat \<Rightarrow> nat option" where
  "count_system_item enc item tokenCount =
     (if b_type item = ''text''
        then (case b_text item of
                None \<Rightarrow> Some tokenCount
              | Some t \<Rightarrow> add_encoded enc t tokenCount)
      else Some tokenCount)"

fun count_system_items :: "encoder \<Rightarrow> block list \<Rightarrow> nat \<Rightarrow> nat option" where
  "count_system_items enc [] tokenCount = Some tokenCount"
| "count_system_items enc (item # rest) tokenCount =
     (case count_system_item enc item tokenCount of
        None \<Rightarrow> None
      | Some tokenCount' \<Rightarrow> count_system_items enc rest tokenCount')"

definition count_system :: "encoder \<Rightarrow> system_prompt option \<Rightarrow> nat \<Rightarrow> nat option" where
  "count_system enc sys tokenCount =
     (case sys of
        None \<Rightarrow> Some tokenCount
      | Some (SysText s) \<Rightarrow> add_encoded enc s tokenCount
      | Some (SysBlocks items) \<Rightarrow> count_system_items enc items tokenCount)"

text \<open>The three \<open>if\<close> statements of the loop over the tools, one after the other.\<close>

definition count_tool :: "encoder \<Rightarrow> tool \<Rightarrow> nat \<Rightarrow> nat option" where
  "count_tool enc t tokenCount =
     (case (case t_name t of
              None \<Rightarrow> Some tokenCount
            | Some n \<Rightarrow> (if n \<noteq> [] then add_encoded enc n tokenCount else Some tokenCount)) of
        None \<Rightarrow> None
      | Some tc1 \<Rightarrow>
          (case (case t_description t of
                   None \<Rightarrow> Some tc1
                 | Some d \<Rightarrow> (if d \<noteq> [] then add_encoded enc d tc1 else Some tc1)) of
             None \<Rightarrow> None
           | Some tc2 \<Rightarrow>
               (case t_input_schema t of
                  None \<Rightarrow> Some tc2
                | Some j \<Rightarrow> (if truthy_json j then add_encoded enc (JSON_stringify j) tc2
                             else Some tc2))))"

fun count_tools :: "encoder \<Rightarrow> tool list \<Rightarrow> nat \<Rightarrow> nat option" where
  "count_tools enc [] tokenCount = Some tokenCount"
| "count_tools enc (t # rest) tokenCount =
     (case count_tool enc t tokenCount of
        None \<Rightarrow> None
      | Some tokenCount' \<Rightarrow> count_tools enc rest tokenCount')"

definition calculateTokenCount ::
  "encoder \<Rightarrow> message list \<Rightarrow> system_prompt option \<Rightarrow> tool list option \<Rightarrow> nat option" where
  "calculateTokenCount enc messages0 sys tools0 =
     (case count_messages enc messages0 0 of
        None \<Rightarrow> None
      | Some tc1 \<Rightarrow>
          (case count_system enc sys tc1 of
             None \<Rightarrow> None
           | Some tc2 \<Rightarrow>
               (case tools0 of
                  None \<Rightarrow> Some tc2
                | Some ts \<Rightarrow> count_tools enc ts tc2)))"

text \<open>
  What the structural count is a sum over, in the words of the specification: the list
  of the texts of a request whose token counts are added up, built from what each
  block contributes.
\<close>

definition message_texts :: "(block \<Rightarrow> string list) \<Rightarrow> message \<Rightarrow> string list" where
  "message_texts block_texts msg =
     (case content msg of
        Text s \<Rightarrow> [s]
      | Blocks bs \<Rightarrow> concat (map block_texts bs))"

definition system_texts :: "system_prompt option \<Rightarrow> string list" where
  "system_texts sys =
     (case sys of
        None \<Rightarrow> []
      | Some (SysText s) \<Rightarrow> [s]
      | Some (SysBlocks items) \<Rightarrow>
          concat (map (\<lambda>item. if b_type item = ''text''
                                then (case b_text item of None \<Rightarrow> [] | Some t \<Rightarrow> [t])
                                else []) items))"

definition tool_texts :: "tool \<Rightarrow> string list" where
  "tool_texts t =
     (case t_name t of None \<Rightarrow> [] | Some n \<Rightarrow> (if n \<noteq> [] then [n] else []))
     @ (case t_description t of None \<Rightarrow> [] | Some d \<Rightarrow> (if d \<noteq> [] then [d] else []))
     @ (case t_input_schema t of
          None \<Rightarrow> []
        | Some j \<Rightarrow> (if truthy_json j then [JSON_stringify j] else []))"

definition request_texts ::
  "(block \<Rightarrow> string list) \<Rightarrow> message list \<Rightarrow> system_prompt option \<Rightarrow> tool list option
     \<Rightarrow> string list" where
  "request_texts block_texts messages0 sys tools0 =
     concat (map (message_texts block_texts) messages0)
     @ system_texts sys
     @ (case tools0 of None \<Rightarrow> [] | Some ts \<Rightarrow> concat (map tool_texts ts))"

text \<open>
  The contribution of a block as the specification words it: the text of a text block,
  the JSON-serialized form of a \<open>tool_use\<close> input and of a \<open>tool_result\<close> content.
\<close>

definition claimed_block_texts :: "block \<Rightarrow> string list" where
  "claimed_block_texts block =
     (if b_type block = ''text''
        then (case b_text block of None \<Rightarrow> [] | Some t \<Rightarrow> [t])
      else if b_type block = ''tool_use''
        then (case b_input block of None \<Rightarrow> [] | Some j \<Rightarrow> [JSON_stringify j])
      else if b_type block = ''tool_result''
        then (case b_content block of
                None \<Rightarrow> []
              | Some (TCText s) \<Rightarrow> [JSON_stringify (JStr s)]
              | Some (TCArray xs) \<Rightarrow> [JSON_stringify (JArr xs)])
      else [])"

text \<open>
  The contribution of a block as amended: a non-empty text; the JSON-serialized form
  of a truthy \<open>tool_use\<close> input; a \<open>tool_result\<close> content as it is when it is a string
  and JSON-serialized when it is an array.
\<close>

definition counted_block_texts :: "block \<Rightarrow> string list" where
  "counted_block_texts block =
     (if b_type block = ''text''
        then (case b_text block of
                None \<Rightarrow> []
              | Some t \<Rightarrow> (if t \<noteq> [] then [t] else []))
      else if b_type block = ''tool_use''
        then (case b_input block of
                None \<Rightarrow> []
              | Some j \<Rightarrow> (if truthy_json j then [JSON_stringify j] else []))
      else if b_type block = ''tool_result''
        then (case b_content block of
                None \<Rightarrow> []
              | Some (TCText s) \<Rightarrow> [s]
              | Some (TCArray xs) \<Rightarrow> [JSON_stringify (JArr xs)])
      else [])"

text \<open>The blocks of a message, and whether a \<open>tool_result\<close> block carries a content.\<close>

definition message_blocks :: "message \<Rightarrow> block list" where
  "message_blocks msg = (case content msg of Text s \<Rightarrow> [] | Blocks bs \<Rightarrow> bs)"

definition has_content :: "block \<Rightarrow> bool" where
  "has_content block = (b_type block \<noteq> ''tool_result'' \<or> b_content block \<noteq> None)"

text \<open>Two stand-in tokenizers, to run the counting functions on concrete inputs.\<close>

definition char_count_encoder :: encoder where
  "char_count_encoder s = Some (length s)"

definition strict_encoder :: encoder where
  "strict_encoder s = (if s = ''<|endoftext|>'' then None else Some (length s))"

section \<open>Tool-call ID normalizer\<close>

text \<open>
  Modelled from the spec: the FNV-1a hash of the forward mapping
  \<open>shortId = base36(fnv1a_32(originalId))\<close>. The normalizer
  (\<open>normalizeOpenAIToolIds\<close> of \<open>utils/convert.js\<close>) is exported but its source is
  missing. The hash starts from the 32-bit offset basis and, for each character,
  XORs it in and multiplies by the 32-bit FNV prime, modulo \<open>2^32\<close>.
\<close>

definition fnv_offset_basis :: "32 word" where
  "fnv_offset_basis = 0x811C9DC5"

definition fnv_prime :: "32 word" where
  "fnv_prime = 0x01000193"

fun fnv1a_loop :: "string \<Rightarrow> 32 word \<Rightarrow> 32 word" where
  "fnv1a_loop [] hash = hash"
| "fnv1a_loop (c # cs) hash = fnv1a_loop cs ((hash XOR of_char c) * fnv_prime)"

definition fnv1a_32 :: "string \<Rightarrow> 32 word" where
  "fnv1a_32 s = fnv1a_loop s fnv_offset_basis"

text \<open>
  Modelled from the spec: \<open>base36\<close> of the forward mapping, the rendering of a number
  in base 36 with the digits \<open>0-9a-z\<close>, most significant digit first.
\<close>

definition base36_digit :: "nat \<Rightarrow> char" where
  "base36_digit d = ''0123456789abcdefghijklmnopqrstuvwxyz'' ! (d mod 36)"

fun base36 :: "nat \<Rightarrow> string" where
  "base36 n = (if n < 36 then [base36_digit n]
               else base36 (n div 36) @ [base36_digit (n mod 36)])"

declare base36.simps [simp del]

text \<open>
  Modelled from the spec: "truncated/padded to exactly 9 characters". The spec names
  neither the padding character nor the side, so both are parameters; truncation keeps
  the first nine characters.
\<close>

datatype pad_side = PadStart | PadEnd

definition fit9 :: "pad_side \<Rightarrow> char \<Rightarrow> string \<Rightarrow> string" where
  "fit9 side pad s =
     take 9 (case side of
               PadStart \<Rightarrow> replicate (9 - length s) pad @ s
             | PadEnd \<Rightarrow> s @ replicate (9 - length s) pad)"

text \<open>
  Modelled from the spec: the forward mapping of the tool-call ID normalizer,
  \<open>shortId = base36(fnv1a_32(originalId))\<close> truncated/padded to exactly 9 characters.
  It reads its argument only: no state, no randomness, no salt.
\<close>

definition shortId :: "pad_side \<Rightarrow> char \<Rightarrow> string \<Rightarrow> string" where
  "shortId side pad originalId = fit9 side pad (base36 (unat (fnv1a_32 originalId)))"

section \<open>Properties of the response translator\<close>

text \<open>
  C4. For every backend response, whatever its finish reason (absent included), the
  stop reason returned by \<open>convertOpenAIToAnthropic\<close> is one of \<open>end_turn\<close>,
  \<open>max_tokens\<close>, \<open>tool_use\<close> or null. The translator is a total function: no input
  makes it raise.
\<close>

theorem stop_reason_in_vocabulary:
  "stop_reason (convertOpenAIToAnthropic response originalModel)
     \<in> {Some ''end_turn'', Some ''max_tokens'', Some ''tool_use'', None}"
  by (simp add: convertOpenAIToAnthropic_def Let_def)

text \<open>
  C1 (as stated, refuted). The claim has \<open>tool_calls\<close> mapped to \<open>tool_use\<close>. The
  translator compares the finish reason with \<open>'stop'\<close> only: a first choice whose
  finish reason is \<open>tool_calls\<close> gets the stop reason null.
\<close>

theorem tool_calls_finish_reason_counterexample:
  "stop_reason (convertOpenAIToAnthropic
      \<lparr>r_id = ''chatcmpl-1'',
       choices = [\<lparr>c_message = Some \<lparr>cm_content = None\<rparr>,
                   finish_reason = Some ''tool_calls''\<rparr>],
       r_usage = None\<rparr> ''m'') \<noteq> Some ''tool_use''"
  by (simp add: convertOpenAIToAnthropic_def first_choice_def choice_finish_reason_def)

text \<open>
  C1 (amended). For every backend response the stop reason is decided by the first
  choice alone: finish reason \<open>stop\<close> maps to \<open>end_turn\<close>, and anything else
  (\<open>tool_calls\<close>, any other string, an absent finish reason, no choice at all) maps to
  null.
\<close>

theorem finish_reason_mapping:
  "stop_reason (convertOpenAIToAnthropic response originalModel) =
     (case choices response of
        [] \<Rightarrow> None
      | c # cs \<Rightarrow> (if finish_reason c = Some ''stop'' then Some ''end_turn'' else None))"
  by (simp add: convertOpenAIToAnthropic_def first_choice_def choice_finish_reason_def
      split: list.split)

text \<open>
  C8. Degenerate backend responses are translated without error. With zero choices the
  content list is empty and the stop reason is null. When the first choice has no
  message, or its message text is absent or null, the content list is empty (the
  \<open>content\<close> field is a list of the result and is always there). When the usage
  object, or one of its two counters, is missing, the corresponding token count is 0.
\<close>

theorem degenerate_response_degrades:
  "(choices response = [] \<longrightarrow>
      a_content (convertOpenAIToAnthropic response originalModel) = [] \<and>
      stop_reason (convertOpenAIToAnthropic response originalModel) = None)
   \<and> (\<forall>c cs. choices response = c # cs \<longrightarrow>
        (c_message c = None \<or> c_message c = Some \<lparr>cm_content = None\<rparr>) \<longrightarrow>
        a_content (convertOpenAIToAnthropic response originalModel) = [])
   \<and> (r_usage response = None \<longrightarrow>
        a_usage (convertOpenAIToAnthropic response originalModel) =
          \<lparr>input_tokens = 0, output_tokens = 0\<rparr>)
   \<and> (\<forall>u. r_usage response = Some u \<longrightarrow>
        (prompt_tokens u = None \<longrightarrow>
           input_tokens (a_usage (convertOpenAIToAnthropic response originalModel)) = 0) \<and>
        (completion_tokens u = None \<longrightarrow>
           output_tokens (a_usage (convertOpenAIToAnthropic response originalModel)) = 0))"
  by (auto simp add: convertOpenAIToAnthropic_def first_choice_def choice_text_def
      choice_finish_reason_def or_zero_def Let_def)

theorem degenerate_response_degrades_witness:
  "a_content (convertOpenAIToAnthropic
      \<lparr>r_id = ''chatcmpl-123'', choices = [], r_usage = None\<rparr> ''claude-3'') = []
   \<and> stop_reason (convertOpenAIToAnthropic
      \<lparr>r_id = ''chatcmpl-123'', choices = [], r_usage = None\<rparr> ''claude-3'') = None
   \<and> a_usage (convertOpenAIToAnthropic
      \<lparr>r_id = ''chatcmpl-123'', choices = [], r_usage = None\<rparr> ''claude-3'') =
        \<lparr>input_tokens = 0, output_tokens = 0\<rparr>
   \<and> a_content (convertOpenAIToAnthropic
      \<lparr>r_id = ''chatcmpl-123'',
       choices = [\<lparr>c_message = Some \<lparr>cm_content = None\<rparr>, finish_reason = Some ''stop''\<rparr>],
       r_usage = Some \<lparr>prompt_tokens = None, completion_tokens = None\<rparr>\<rparr> ''claude-3'') = []
   \<and> a_usage (convertOpenAIToAnthropic
      \<lparr>r_id = ''chatcmpl-123'',
       choices = [\<lparr>c_message = Some \<lparr>cm_content = None\<rparr>, finish_reason = Some ''stop''\<rparr>],
       r_usage = Some \<lparr>prompt_tokens = None, completion_tokens = None\<rparr>\<rparr> ''claude-3'') =
        \<lparr>input_tokens = 0, output_tokens = 0\<rparr>"
  using degenerate_response_degrades
          [of "\<lparr>r_id = ''chatcmpl-123'', choices = [], r_usage = None\<rparr>" "''claude-3''"]
        degenerate_response_degrades
          [of "\<lparr>r_id = ''chatcmpl-123'',
                choices = [\<lparr>c_message = Some \<lparr>cm_content = None\<rparr>,
                            finish_reason = Some ''stop''\<rparr>],
                r_usage = Some \<lparr>prompt_tokens = None, completion_tokens = None\<rparr>\<rparr>"
              "''claude-3''"]
  by simp

section \<open>Properties of the request translator\<close>

lemma convert_blocks_acc:
  "convert_blocks bs acc = acc @ concat (map translate_block bs)"
proof (induction bs arbitrary: acc)
  case Nil
  show ?case by simp
next
  case (Cons b bs)
  have "push_block b acc = acc @ translate_block b"
    by (simp add: push_block_def translate_block_def text_part_def image_part_def data_uri_def
        split: option.split)
  then show ?case using Cons.IH [of "push_block b acc"] by simp
qed

lemma push_message_eq: "push_message m acc = acc @ [translate_message m]"
  by (simp add: push_message_def translate_message_def convert_blocks_acc
      split: msg_content.split)

lemma convert_messages_acc:
  "convert_messages ms acc = acc @ map translate_message ms"
  by (induction ms arbitrary: acc) (simp_all add: push_message_eq)

lemma o_messages_eq:
  "o_messages (convertAnthropicToOpenAI request)
     = system_message (system request) @ map translate_message (messages request)"
  by (simp add: convertAnthropicToOpenAI_def convert_messages_acc)

text \<open>
  C2 (as stated, refuted). The claim has every block other than \<open>text\<close> and
  \<open>image\<close> appear in the output untouched. The inner loop has no \<open>else\<close> branch:
  a \<open>tool_use\<close> block is dropped, and the translated content of a message made of one
  such block is the empty array.
\<close>

theorem tool_use_block_dropped_counterexample:
  "o_messages (convertAnthropicToOpenAI
      \<lparr>model = ''m'',
       messages = [\<lparr>role = ''assistant'',
                    content = Blocks [\<lparr>b_type = ''tool_use'', b_text = None, b_source = None,
                                       b_id = Some ''toolu_1'', b_name = Some ''get_weather'',
                                       b_input = Some (JObj [(''city'', JStr ''Paris'')]),
                                       b_tool_use_id = None, b_content = None\<rparr>]\<rparr>],
       system = None, tools = None, max_tokens = 10, temperature = None, stream = None\<rparr>)
   = [\<lparr>o_role = ''assistant'', o_content = OParts []\<rparr>]"
  by (simp add: convertAnthropicToOpenAI_def system_message_def push_message_def
      push_block_def)

text \<open>
  C2 (amended). For every message whose content is a block array, the translated
  message keeps the role and its content is the block-by-block image of the array, in
  order: a \<open>text\<close> block gives a text part (an absent text becoming the empty
  string), an \<open>image\<close> block that has a source gives an \<open>image_url\<close> part whose URL is
  \<open>data:<media_type>;base64,<data>\<close>, and every other block (\<open>tool_use\<close>,
  \<open>tool_result\<close>, an image without a source) gives nothing. The translated message
  stands at the position of the original, after the system message if there is one.
\<close>

theorem block_content_translation:
  assumes "i < length (messages request)"
    and "content (messages request ! i) = Blocks bs"
  shows "o_messages (convertAnthropicToOpenAI request)
           ! (length (system_message (system request)) + i)
         = \<lparr>o_role = role (messages request ! i),
            o_content = OParts (concat (map translate_block bs))\<rparr>"
proof -
  have "o_messages (convertAnthropicToOpenAI request)
           ! (length (system_message (system request)) + i)
        = translate_message (messages request ! i)"
    using assms(1) by (simp add: o_messages_eq nth_append)
  then show ?thesis
    using assms(2) by (simp add: translate_message_def)
qed

theorem block_content_translation_witness:
  "o_messages (convertAnthropicToOpenAI
      \<lparr>model = ''claude-3'',
       messages = [\<lparr>role = ''user'',
                    content = Blocks
                      [\<lparr>b_type = ''text'', b_text = Some ''Describe this'', b_source = None,
                        b_id = None, b_name = None, b_input = None,
                        b_tool_use_id = None, b_content = None\<rparr>,
                       \<lparr>b_type = ''image'', b_text = None,
                        b_source = Some \<lparr>src_type = ''base64'', media_type = ''image/png'',
                                         data = ''abc123''\<rparr>,
                        b_id = None, b_name = None, b_input = None,
                        b_tool_use_id = None, b_content = None\<rparr>]\<rparr>],
       system = None, tools = None, max_tokens = 100, temperature = None, stream = None\<rparr>) ! 0
   = \<lparr>o_role = ''user'',
      o_content = OParts
        [\<lparr>p_type = ''text'', p_text = Some ''Describe this'', p_image_url = None\<rparr>,
         \<lparr>p_type = ''image_url'', p_text = None,
          p_image_url = Some ''data:image/png;base64,abc123''\<rparr>]\<rparr>"
  using block_content_translation
    [of 0 "\<lparr>model = ''claude-3'',
       messages = [\<lparr>role = ''user'',
                    content = Blocks
                      [\<lparr>b_type = ''text'', b_text = Some ''Describe this'', b_source = None,
                        b_id = None, b_name = None, b_input = None,
                        b_tool_use_id = None, b_content = None\<rparr>,
                       \<lparr>b_type = ''image'', b_text = None,
                        b_source = Some \<lparr>src_type = ''base64'', media_type = ''image/png'',
                                         data = ''abc123''\<rparr>,
                        b_id = None, b_name = None, b_input = None,
                        b_tool_use_id = None, b_content = None\<rparr>]\<rparr>],
       system = None, tools = None, max_tokens = 100, temperature = None, stream = None\<rparr>"]
  by (simp add: system_message_def translate_block_def)

text \<open>
  C7. For every request with no tools whose messages all have string content, the
  translated request carries, after the system message if there is one, exactly the
  original messages in order, each with its role and its string content unchanged; and
  \<open>model\<close>, \<open>max_tokens\<close>, \<open>temperature\<close> and \<open>stream\<close> are copied as they are, an
  absent optional field staying absent.
\<close>

theorem string_request_lossless:
  assumes "tools request = None"
    and "map content (messages request) = map Text texts"
  shows "take (length (system_message (system request)))
             (o_messages (convertAnthropicToOpenAI request)) = system_message (system request)
       \<and> map o_role (drop (length (system_message (system request)))
             (o_messages (convertAnthropicToOpenAI request))) = map role (messages request)
       \<and> map o_content (drop (length (system_message (system request)))
             (o_messages (convertAnthropicToOpenAI request))) = map OText texts
       \<and> o_model (convertAnthropicToOpenAI request) = model request
       \<and> o_max_tokens (convertAnthropicToOpenAI request) = max_tokens request
       \<and> o_temperature (convertAnthropicToOpenAI request) = temperature request
       \<and> o_stream (convertAnthropicToOpenAI request) = stream request"
proof -
  have len: "length texts = length (messages request)"
    using assms(2) by (metis length_map)
  have "map (o_content \<circ> translate_message) (messages request) = map OText texts"
  proof (rule nth_equalityI)
    show "length (map (o_content \<circ> translate_message) (messages request))
          = length (map OText texts)"
      using len by simp
  next
    fix i assume "i < length (map (o_content \<circ> translate_message) (messages request))"
    then have i: "i < length (messages request)" by simp
    have "map content (messages request) ! i = map Text texts ! i"
      using assms(2) by simp
    then have "content (messages request ! i) = Text (texts ! i)"
      using i len by simp
    then show "map (o_content \<circ> translate_message) (messages request) ! i
               = map OText texts ! i"
      using i len by (simp add: translate_message_def)
  qed
  moreover have "map (o_role \<circ> translate_message) (messages request)
                 = map role (messages request)"
    by (simp add: translate_message_def)
  ultimately show ?thesis
    by (simp add: o_messages_eq) (simp add: convertAnthropicToOpenAI_def)
qed

theorem string_request_lossless_witness:
  "o_messages (convertAnthropicToOpenAI
      \<lparr>model = ''m'', messages = [\<lparr>role = ''user'', content = Text ''Hi''\<rparr>],
       system = None, tools = None, max_tokens = 10, temperature = None, stream = None\<rparr>)
     = [\<lparr>o_role = ''user'', o_content = OText ''Hi''\<rparr>]
   \<and> o_model (convertAnthropicToOpenAI
      \<lparr>model = ''m'', messages = [\<lparr>role = ''user'', content = Text ''Hi''\<rparr>],
       system = None, tools = None, max_tokens = 10, temperature = None, stream = None\<rparr>) = ''m''
   \<and> o_max_tokens (convertAnthropicToOpenAI
      \<lparr>model = ''m'', messages = [\<lparr>role = ''user'', content = Text ''Hi''\<rparr>],
       system = None, tools = None, max_tokens = 10, temperature = None, stream = None\<rparr>) = 10
   \<and> o_temperature (convertAnthropicToOpenAI
      \<lparr>model = ''m'', messages = [\<lparr>role = ''user'', content = Text ''Hi''\<rparr>],
       system = None, tools = None, max_tokens = 10, temperature = None, stream = None\<rparr>) = None
   \<and> o_stream (convertAnthropicToOpenAI
      \<lparr>model = ''m'', messages = [\<lparr>role = ''user'', content = Text ''Hi''\<rparr>],
       system = None, tools = None, max_tokens = 10, temperature = None, stream = None\<rparr>) = None"
proof -
  let ?r = "\<lparr>model = ''m'', messages = [\<lparr>role = ''user'', content = Text ''Hi''\<rparr>],
       system = None, tools = None, max_tokens = 10, temperature = None, stream = None\<rparr>"
  have h1: "tools ?r = None" by simp
  have h2: "map content (messages ?r) = map Text [''Hi'']" by simp
  have k: "length (system_message (system ?r)) = 0" by (simp add: system_message_def)
  have n: "length (o_messages (convertAnthropicToOpenAI ?r)) = 1"
    by (simp add: convertAnthropicToOpenAI_def system_message_def push_message_def)
  from string_request_lossless [OF h1 h2]
  have r: "map o_role (o_messages (convertAnthropicToOpenAI ?r)) = [''user'']"
    and c: "map o_content (o_messages (convertAnthropicToOpenAI ?r)) = [OText ''Hi'']"
    and rest: "o_model (convertAnthropicToOpenAI ?r) = ''m''"
      "o_max_tokens (convertAnthropicToOpenAI ?r) = 10"
      "o_temperature (convertAnthropicToOpenAI ?r) = None"
      "o_stream (convertAnthropicToOpenAI ?r) = None"
    unfolding k by simp_all
  obtain x where x: "o_messages (convertAnthropicToOpenAI ?r) = [x]"
    using n by (auto simp: length_Suc_conv)
  have "x = \<lparr>o_role = ''user'', o_content = OText ''Hi''\<rparr>"
    using r c unfolding x by (cases x) simp
  then show ?thesis using x rest by simp
qed

section \<open>Properties of request preprocessing\<close>

text \<open>
  C9. When the last message of a request has role \<open>assistant\<close>,
  \<open>fixTrailingAssistant\<close> appends one user message with content \<open>Continue.\<close> and
  changes nothing else; otherwise (the last message has another role, or there is no
  message) the request is returned unchanged. In both cases the returned request does
  not end with an assistant message.
\<close>

theorem fixTrailingAssistant_appends_continue:
  "(messages req \<noteq> [] \<and> role (last (messages req)) = ''assistant'' \<longrightarrow>
      fixTrailingAssistant req =
        req\<lparr>messages := messages req @ [\<lparr>role = ''user'', content = Text ''Continue.''\<rparr>]\<rparr>)
   \<and> (\<not> (messages req \<noteq> [] \<and> role (last (messages req)) = ''assistant'') \<longrightarrow>
      fixTrailingAssistant req = req)
   \<and> (messages (fixTrailingAssistant req) = [] \<or>
      role (last (messages (fixTrailingAssistant req))) \<noteq> ''assistant'')"
proof (cases "messages req = []")
  case True
  then show ?thesis by (simp add: fixTrailingAssistant_def last_message_def)
next
  case False
  then have lm: "last_message req = Some (last (messages req))"
    by (simp add: last_message_def)
  show ?thesis
  proof (cases "role (last (messages req)) = ''assistant''")
    case True
    then show ?thesis using False lm by (simp add: fixTrailingAssistant_def)
  next
    case False
    then show ?thesis using lm by (simp add: fixTrailingAssistant_def)
  qed
qed

theorem fixTrailingAssistant_appends_continue_witness:
  "fixTrailingAssistant
      \<lparr>model = ''m'',
       messages = [\<lparr>role = ''user'', content = Text ''Hello''\<rparr>,
                   \<lparr>role = ''assistant'', content = Text ''Hi there!''\<rparr>],
       system = None, tools = None, max_tokens = 100, temperature = None, stream = None\<rparr>
   = \<lparr>model = ''m'',
      messages = [\<lparr>role = ''user'', content = Text ''Hello''\<rparr>,
                  \<lparr>role = ''assistant'', content = Text ''Hi there!''\<rparr>,
                  \<lparr>role = ''user'', content = Text ''Continue.''\<rparr>],
      system = None, tools = None, max_tokens = 100, temperature = None, stream = None\<rparr>
   \<and> fixTrailingAssistant
      \<lparr>model = ''m'', messages = [\<lparr>role = ''user'', content = Text ''Hello''\<rparr>],
       system = None, tools = None, max_tokens = 100, temperature = None, stream = None\<rparr>
   = \<lparr>model = ''m'', messages = [\<lparr>role = ''user'', content = Text ''Hello''\<rparr>],
      system = None, tools = None, max_tokens = 100, temperature = None, stream = None\<rparr>"
  using fixTrailingAssistant_appends_continue
    [of "\<lparr>model = ''m'',
       messages = [\<lparr>role = ''user'', content = Text ''Hello''\<rparr>,
                   \<lparr>role = ''assistant'', content = Text ''Hi there!''\<rparr>],
       system = None, tools = None, max_tokens = 100, temperature = None, stream = None\<rparr>"]
    fixTrailingAssistant_appends_continue
    [of "\<lparr>model = ''m'', messages = [\<lparr>role = ''user'', content = Text ''Hello''\<rparr>],
       system = None, tools = None, max_tokens = 100, temperature = None, stream = None\<rparr>"]
  by simp

text \<open>
  C10. \<open>normalizeToolIds\<close> changes nothing but the \<open>id\<close> field of \<open>tool_result\<close> blocks
  that carry a \<open>tool_use_id\<close> (a present, non-empty string, as the test
  \<open>if (toolUseId)\<close> reads it), which it sets to that \<open>tool_use_id\<close>. Every field of
  the request other than \<open>messages\<close> is unchanged; the messages keep their number, order
  and roles; a message with string content is unchanged; a message with block content
  keeps the number and order of its blocks, and each block that is not such a
  \<open>tool_result\<close> is unchanged.
\<close>

theorem normalizeToolIds_frame:
  "normalizeToolIds req = req\<lparr>messages := messages (normalizeToolIds req)\<rparr>
   \<and> length (messages (normalizeToolIds req)) = length (messages req)
   \<and> (\<forall>i < length (messages req).
        role (messages (normalizeToolIds req) ! i) = role (messages req ! i)
        \<and> (\<forall>s. content (messages req ! i) = Text s \<longrightarrow>
              messages (normalizeToolIds req) ! i = messages req ! i)
        \<and> (\<forall>bs. content (messages req ! i) = Blocks bs \<longrightarrow>
              (\<exists>bs'. content (messages (normalizeToolIds req) ! i) = Blocks bs'
                 \<and> length bs' = length bs
                 \<and> (\<forall>j < length bs.
                      (b_type (bs ! j) = ''tool_result'' \<and> truthy_str (b_tool_use_id (bs ! j))
                         \<longrightarrow> bs' ! j = (bs ! j)\<lparr>b_id := b_tool_use_id (bs ! j)\<rparr>)
                      \<and> (\<not> (b_type (bs ! j) = ''tool_result''
                              \<and> truthy_str (b_tool_use_id (bs ! j)))
                         \<longrightarrow> bs' ! j = bs ! j)))))"
proof -
  have blk: "\<And>b. (b_type b = ''tool_result'' \<and> truthy_str (b_tool_use_id b)
                 \<longrightarrow> normalize_block b = b\<lparr>b_id := b_tool_use_id b\<rparr>)
               \<and> (\<not> (b_type b = ''tool_result'' \<and> truthy_str (b_tool_use_id b))
                 \<longrightarrow> normalize_block b = b)"
    by (simp add: normalize_block_def truthy_str_def split: option.split)
  have msg_role: "\<And>m. role (normalize_message m) = role m"
    by (simp add: normalize_message_def split: msg_content.split)
  have msg_text: "\<And>m s. content m = Text s \<Longrightarrow> normalize_message m = m"
    by (simp add: normalize_message_def)
  have msg_blocks: "\<And>m bs. content m = Blocks bs \<Longrightarrow>
      content (normalize_message m) = Blocks (map normalize_block bs)"
    by (simp add: normalize_message_def)
  have nth: "\<And>i. i < length (messages req) \<Longrightarrow>
      messages (normalizeToolIds req) ! i = normalize_message (messages req ! i)"
    by (simp add: normalizeToolIds_def)
  have frame: "normalizeToolIds req = req\<lparr>messages := messages (normalizeToolIds req)\<rparr>"
    by (simp add: normalizeToolIds_def)
  have len: "length (messages (normalizeToolIds req)) = length (messages req)"
    by (simp add: normalizeToolIds_def)
  have per_msg: "\<forall>i < length (messages req).
        role (messages (normalizeToolIds req) ! i) = role (messages req ! i)
        \<and> (\<forall>s. content (messages req ! i) = Text s \<longrightarrow>
              messages (normalizeToolIds req) ! i = messages req ! i)
        \<and> (\<forall>bs. content (messages req ! i) = Blocks bs \<longrightarrow>
              (\<exists>bs'. content (messages (normalizeToolIds req) ! i) = Blocks bs'
                 \<and> length bs' = length bs
                 \<and> (\<forall>j < length bs.
                      (b_type (bs ! j) = ''tool_result'' \<and> truthy_str (b_tool_use_id (bs ! j))
                         \<longrightarrow> bs' ! j = (bs ! j)\<lparr>b_id := b_tool_use_id (bs ! j)\<rparr>)
                      \<and> (\<not> (b_type (bs ! j) = ''tool_result''
                              \<and> truthy_str (b_tool_use_id (bs ! j)))
                         \<longrightarrow> bs' ! j = bs ! j))))"
  proof (intro allI impI conjI)
    fix i assume i: "i < length (messages req)"
    show "role (messages (normalizeToolIds req) ! i) = role (messages req ! i)"
      using nth [OF i] msg_role by simp
  next
    fix i s assume i: "i < length (messages req)"
      and "content (messages req ! i) = Text s"
    then show "messages (normalizeToolIds req) ! i = messages req ! i"
      using nth [OF i] msg_text by simp
  next
    fix i bs assume i: "i < length (messages req)"
      and c: "content (messages req ! i) = Blocks bs"
    have "content (messages (normalizeToolIds req) ! i) = Blocks (map normalize_block bs)"
      using nth [OF i] msg_blocks [OF c] by simp
    moreover have "length (map normalize_block bs) = length bs" by simp
    moreover have "\<forall>j < length bs.
        (b_type (bs ! j) = ''tool_result'' \<and> truthy_str (b_tool_use_id (bs ! j))
           \<longrightarrow> map normalize_block bs ! j = (bs ! j)\<lparr>b_id := b_tool_use_id (bs ! j)\<rparr>)
        \<and> (\<not> (b_type (bs ! j) = ''tool_result'' \<and> truthy_str (b_tool_use_id (bs ! j)))
           \<longrightarrow> map normalize_block bs ! j = bs ! j)"
      using blk by simp
    ultimately show "\<exists>bs'. content (messages (normalizeToolIds req) ! i) = Blocks bs'
                 \<and> length bs' = length bs
                 \<and> (\<forall>j < length bs.
                      (b_type (bs ! j) = ''tool_result'' \<and> truthy_str (b_tool_use_id (bs ! j))
                         \<longrightarrow> bs' ! j = (bs ! j)\<lparr>b_id := b_tool_use_id (bs ! j)\<rparr>)
                      \<and> (\<not> (b_type (bs ! j) = ''tool_result''
                              \<and> truthy_str (b_tool_use_id (bs ! j)))
                         \<longrightarrow> bs' ! j = bs ! j))"
      by blast
  qed
  from frame len per_msg show ?thesis by blast
qed

theorem normalizeToolIds_frame_witness:
  "content (messages (normalizeToolIds
      \<lparr>model = ''m'',
       messages = [\<lparr>role = ''user'', content = Text ''Hi''\<rparr>,
                   \<lparr>role = ''user'',
                    content = Blocks
                      [\<lparr>b_type = ''tool_result'', b_text = None, b_source = None,
                        b_id = None, b_name = None, b_input = None,
                        b_tool_use_id = Some ''toolu_1'', b_content = Some (TCText ''ok'')\<rparr>,
                       \<lparr>b_type = ''text'', b_text = Some ''done'', b_source = None,
                        b_id = None, b_name = None, b_input = None,
                        b_tool_use_id = None, b_content = None\<rparr>]\<rparr>],
       system = None, tools = None, max_tokens = 100, temperature = None, stream = None\<rparr>) ! 1)
   = Blocks
       [\<lparr>b_type = ''tool_result'', b_text = None, b_source = None,
         b_id = Some ''toolu_1'', b_name = None, b_input = None,
         b_tool_use_id = Some ''toolu_1'', b_content = Some (TCText ''ok'')\<rparr>,
        \<lparr>b_type = ''text'', b_text = Some ''done'', b_source = None,
         b_id = None, b_name = None, b_input = None,
         b_tool_use_id = None, b_content = None\<rparr>]
   \<and> messages (normalizeToolIds
      \<lparr>model = ''m'',
       messages = [\<lparr>role = ''user'', content = Text ''Hi''\<rparr>,
                   \<lparr>role = ''user'',
                    content = Blocks
                      [\<lparr>b_type = ''tool_result'', b_text = None, b_source = None,
                        b_id = None, b_name = None, b_input = None,
                        b_tool_use_id = Some ''toolu_1'', b_content = Some (TCText ''ok'')\<rparr>,
                       \<lparr>b_type = ''text'', b_text = Some ''done'', b_source = None,
                        b_id = None, b_name = None, b_input = None,
                        b_tool_use_id = None, b_content = None\<rparr>]\<rparr>],
       system = None, tools = None, max_tokens = 100, temperature = None, stream = None\<rparr>) ! 0
   = \<lparr>role = ''user'', content = Text ''Hi''\<rparr>"
proof -
  define tr where "tr = \<lparr>b_type = ''tool_result'', b_text = None, b_source = None,
                        b_id = None, b_name = None, b_input = None,
                        b_tool_use_id = Some ''toolu_1'', b_content = Some (TCText ''ok'')\<rparr>"
  define tx where "tx = \<lparr>b_type = ''text'', b_text = Some ''done'', b_source = None,
                        b_id = None, b_name = None, b_input = None,
                        b_tool_use_id = None, b_content = None\<rparr>"
  define r where "r = \<lparr>model = ''m'',
       messages = [\<lparr>role = ''user'', content = Text ''Hi''\<rparr>,
                   \<lparr>role = ''user'', content = Blocks [tr, tx]\<rparr>],
       system = None, tools = None, max_tokens = 100, temperature = None, stream = None\<rparr>"
  have msgs: "messages r = [\<lparr>role = ''user'', content = Text ''Hi''\<rparr>,
                   \<lparr>role = ''user'', content = Blocks [tr, tx]\<rparr>]"
    by (simp add: r_def)
  have i0: "0 < length (messages r)" and i1: "1 < length (messages r)"
    by (simp_all add: msgs)
  have c0: "content (messages r ! 0) = Text ''Hi''" and c1: "content (messages r ! 1) = Blocks [tr, tx]"
    by (simp_all add: msgs)
  note t = normalizeToolIds_frame [of r]
  note per = t [THEN conjunct2, THEN conjunct2, rule_format]
  have m0: "messages (normalizeToolIds r) ! 0 = messages r ! 0"
    using per [OF i0, THEN conjunct2, THEN conjunct1, rule_format, OF c0] .
  obtain bs' where c: "content (messages (normalizeToolIds r) ! 1) = Blocks bs'"
    and l: "length bs' = length [tr, tx]"
    and b: "\<forall>j<length [tr, tx]. (b_type ([tr, tx] ! j) = ''tool_result''
                     \<and> truthy_str (b_tool_use_id ([tr, tx] ! j))
                   \<longrightarrow> bs' ! j = ([tr, tx] ! j)\<lparr>b_id := b_tool_use_id ([tr, tx] ! j)\<rparr>)
                \<and> (\<not> (b_type ([tr, tx] ! j) = ''tool_result''
                     \<and> truthy_str (b_tool_use_id ([tr, tx] ! j)))
                   \<longrightarrow> bs' ! j = [tr, tx] ! j)"
    using per [OF i1, THEN conjunct2, THEN conjunct2, rule_format, OF c1] by blast
  have h0: "b_type ([tr, tx] ! 0) = ''tool_result'' \<and> truthy_str (b_tool_use_id ([tr, tx] ! 0))"
    by (simp add: tr_def truthy_str_def)
  have h1: "\<not> (b_type ([tr, tx] ! 1) = ''tool_result'' \<and> truthy_str (b_tool_use_id ([tr, tx] ! 1)))"
    by (simp add: tx_def)
  have b0: "bs' ! 0 = tr\<lparr>b_id := Some ''toolu_1''\<rparr>"
    using b [rule_format, of 0, THEN conjunct1, rule_format, OF _ h0] by (simp add: tr_def)
  have b1: "bs' ! 1 = tx"
    using b [rule_format, of 1, THEN conjunct2, rule_format, OF _ h1] by simp
  have "bs' = [tr\<lparr>b_id := Some ''toolu_1''\<rparr>, tx]"
  proof (rule nth_equalityI)
    show "length bs' = length [tr\<lparr>b_id := Some ''toolu_1''\<rparr>, tx]" using l by simp
  next
    fix i assume "i < length bs'"
    then have "i = 0 \<or> i = 1" using l by auto
    then show "bs' ! i = [tr\<lparr>b_id := Some ''toolu_1''\<rparr>, tx] ! i"
      using b0 b1 by auto
  qed
  then have "content (messages (normalizeToolIds r) ! 1)
             = Blocks [tr\<lparr>b_id := Some ''toolu_1''\<rparr>, tx]
           \<and> messages (normalizeToolIds r) ! 0 = \<lparr>role = ''user'', content = Text ''Hi''\<rparr>"
    using c m0 msgs by simp
  then show ?thesis
    unfolding r_def tr_def tx_def by simp
qed

section \<open>Properties of token counting\<close>

lemma ceil_div4: "nat \<lceil>real n / 4\<rceil> = (n + 3) div 4"
  by linarith

lemma countTokens_fallback:
  "enc text = None \<Longrightarrow> countTokens enc text = (length text + 3) div 4"
  by (simp add: countTokens_def ceil_div4)

lemma countTokens_encoded:
  "enc text = Some n \<Longrightarrow> countTokens enc text = n"
  by (simp add: countTokens_def)

lemma add_encoded_count:
  "enc s = Some (count s) \<Longrightarrow> add_encoded enc s tc = Some (tc + count s)"
  by (simp add: add_encoded_def)

lemma count_block_sum:
  assumes "has_content b"
    and "\<forall>s\<in>set (counted_block_texts b). enc s = Some (count s)"
  shows "count_block enc b tc = Some (tc + sum_list (map count (counted_block_texts b)))"
  using assms
  by (auto simp add: count_block_def counted_block_texts_def has_content_def truthy_str_def
      truthy_input_def add_encoded_def split: option.splits tool_content.splits)

lemma count_blocks_sum:
  assumes "\<forall>b\<in>set bs. has_content b"
    and "\<forall>s\<in>set (concat (map counted_block_texts bs)). enc s = Some (count s)"
  shows "count_blocks enc bs tc =
           Some (tc + sum_list (map count (concat (map counted_block_texts bs))))"
  using assms
proof (induction bs arbitrary: tc)
  case Nil
  show ?case by simp
next
  case (Cons b bs)
  have "count_block enc b tc = Some (tc + sum_list (map count (counted_block_texts b)))"
    using Cons.prems by (intro count_block_sum) simp_all
  moreover have "count_blocks enc bs (tc + sum_list (map count (counted_block_texts b))) =
      Some (tc + sum_list (map count (counted_block_texts b))
            + sum_list (map count (concat (map counted_block_texts bs))))"
    using Cons.prems by (intro Cons.IH) simp_all
  ultimately show ?case by (simp add: add.assoc)
qed

lemma count_message_sum:
  assumes "\<forall>b\<in>set (message_blocks m). has_content b"
    and "\<forall>s\<in>set (message_texts counted_block_texts m). enc s = Some (count s)"
  shows "count_message enc m tc =
           Some (tc + sum_list (map count (message_texts counted_block_texts m)))"
proof (cases "content m")
  case (Text s)
  then show ?thesis
    using assms(2) by (simp add: count_message_def message_texts_def add_encoded_count)
next
  case (Blocks bs)
  then show ?thesis
    using assms count_blocks_sum [of bs enc count tc]
    by (simp add: count_message_def message_texts_def message_blocks_def)
qed

lemma count_messages_sum:
  assumes "\<forall>m\<in>set ms. \<forall>b\<in>set (message_blocks m). has_content b"
    and "\<forall>s\<in>set (concat (map (message_texts counted_block_texts) ms)). enc s = Some (count s)"
  shows "count_messages enc ms tc =
           Some (tc + sum_list (map count (concat (map (message_texts counted_block_texts) ms))))"
  using assms
proof (induction ms arbitrary: tc)
  case Nil
  show ?case by simp
next
  case (Cons m ms)
  have "count_message enc m tc =
          Some (tc + sum_list (map count (message_texts counted_block_texts m)))"
    using Cons.prems by (intro count_message_sum) simp_all
  moreover have "count_messages enc ms
        (tc + sum_list (map count (message_texts counted_block_texts m))) =
      Some (tc + sum_list (map count (message_texts counted_block_texts m))
            + sum_list (map count (concat (map (message_texts counted_block_texts) ms))))"
    using Cons.prems by (intro Cons.IH) simp_all
  ultimately show ?case by (simp add: add.assoc)
qed

lemma count_system_items_sum:
  assumes "\<forall>s\<in>set (system_texts (Some (SysBlocks items))). enc s = Some (count s)"
  shows "count_system_items enc items tc =
           Some (tc + sum_list (map count (system_texts (Some (SysBlocks items)))))"
  using assms
proof (induction items arbitrary: tc)
  case Nil
  show ?case by (simp add: system_texts_def)
next
  case (Cons item items)
  let ?here = "if b_type item = ''text''
               then (case b_text item of None \<Rightarrow> [] | Some t \<Rightarrow> [t]) else []"
  have unroll: "system_texts (Some (SysBlocks (item # items)))
               = ?here @ system_texts (Some (SysBlocks items))"
    by (simp add: system_texts_def)
  have here: "\<forall>s\<in>set ?here. enc s = Some (count s)"
    and rest: "\<forall>s\<in>set (system_texts (Some (SysBlocks items))). enc s = Some (count s)"
    using Cons.prems unfolding unroll set_append ball_Un by blast+
  have "count_system_item enc item tc = Some (tc + sum_list (map count ?here))"
  proof (cases "b_type item = ''text''")
    case False
    then show ?thesis by (simp add: count_system_item_def)
  next
    case True
    show ?thesis
    proof (cases "b_text item")
      case None
      with True show ?thesis by (simp add: count_system_item_def)
    next
      case (Some t)
      with True here have "enc t = Some (count t)" by simp
      with True Some show ?thesis by (simp add: count_system_item_def add_encoded_def)
    qed
  qed
  moreover have "count_system_items enc items (tc + sum_list (map count ?here)) =
      Some (tc + sum_list (map count ?here)
            + sum_list (map count (system_texts (Some (SysBlocks items)))))"
    using Cons.IH [OF rest] .
  ultimately show ?case unfolding unroll by (simp add: add.assoc)
qed

lemma count_system_sum:
  assumes "\<forall>s\<in>set (system_texts sys). enc s = Some (count s)"
  shows "count_system enc sys tc = Some (tc + sum_list (map count (system_texts sys)))"
proof (cases sys)
  case None
  then show ?thesis by (simp add: count_system_def system_texts_def)
next
  case (Some p)
  show ?thesis
  proof (cases p)
    case (SysText s)
    with Some assms show ?thesis
      by (simp add: count_system_def system_texts_def add_encoded_count)
  next
    case (SysBlocks items)
    with Some assms count_system_items_sum [of items enc count tc] show ?thesis
      by (simp add: count_system_def)
  qed
qed

lemma count_tool_sum:
  assumes "\<forall>s\<in>set (tool_texts t). enc s = Some (count s)"
  shows "count_tool enc t tc = Some (tc + sum_list (map count (tool_texts t)))"
  using assms
  by (auto simp add: count_tool_def tool_texts_def add_encoded_def split: option.splits)

lemma count_tools_sum:
  assumes "\<forall>s\<in>set (concat (map tool_texts ts)). enc s = Some (count s)"
  shows "count_tools enc ts tc = Some (tc + sum_list (map count (concat (map tool_texts ts))))"
  using assms
proof (induction ts arbitrary: tc)
  case Nil
  show ?case by simp
next
  case (Cons t ts)
  have "count_tool enc t tc = Some (tc + sum_list (map count (tool_texts t)))"
    using Cons.prems by (intro count_tool_sum) simp
  moreover have "count_tools enc ts (tc + sum_list (map count (tool_texts t))) =
      Some (tc + sum_list (map count (tool_texts t))
            + sum_list (map count (concat (map tool_texts ts))))"
    using Cons.prems by (intro Cons.IH) simp
  ultimately show ?case by (simp add: add.assoc)
qed

text \<open>
  C5 (as stated, refuted). The claim counts the JSON-serialized form of every
  \<open>tool_result\<close> content. The code serializes a content only when it is not a string
  (\<open>typeof content === 'string' ? content : JSON.stringify(content)\<close>): for a
  \<open>tool_result\<close> whose content is the string \<open>ok\<close> it counts the two characters
  \<open>ok\<close>, not the four characters of the serialized form with its quotes. With one
  token per character the structural count is 2 and the claimed sum is 4.
\<close>

theorem tool_result_string_counterexample:
  "calculateTokenCount char_count_encoder
      [\<lparr>role = ''user'',
        content = Blocks [\<lparr>b_type = ''tool_result'', b_text = None, b_source = None,
                           b_id = None, b_name = None, b_input = None,
                           b_tool_use_id = Some ''toolu_1'', b_content = Some (TCText ''ok'')\<rparr>]\<rparr>]
      None None
   \<noteq> Some (sum_list (map length
       (request_texts claimed_block_texts
          [\<lparr>role = ''user'',
            content = Blocks [\<lparr>b_type = ''tool_result'', b_text = None, b_source = None,
                               b_id = None, b_name = None, b_input = None,
                               b_tool_use_id = Some ''toolu_1'',
                               b_content = Some (TCText ''ok'')\<rparr>]\<rparr>]
          None None)))"
proof -
  let ?b = "\<lparr>b_type = ''tool_result'', b_text = None, b_source = None,
                           b_id = None, b_name = None, b_input = None,
                           b_tool_use_id = Some ''toolu_1'', b_content = Some (TCText ''ok'')\<rparr>"
  have code: "calculateTokenCount char_count_encoder
      [\<lparr>role = ''user'', content = Blocks [?b]\<rparr>] None None = Some 2"
    by (simp add: calculateTokenCount_def count_message_def count_block_def add_encoded_def
        count_system_def char_count_encoder_def)
  have q: "JSON_stringify (JStr ''ok'') = [CHR 0x22, CHR ''o'', CHR ''k'', CHR 0x22]"
    by (simp add: quote_def)
  have claimed: "sum_list (map length
       (request_texts claimed_block_texts [\<lparr>role = ''user'', content = Blocks [?b]\<rparr>] None None))
       = 4"
    unfolding request_texts_def message_texts_def claimed_block_texts_def system_texts_def
    by (simp add: q del: JSON_stringify.simps)
  show ?thesis unfolding code claimed by simp
qed

text \<open>
  C5 (amended). For every messages/system/tools input in which every \<open>tool_result\<close>
  block has a content, and on whose counted texts the tokenizer returns a count,
  \<open>calculateTokenCount\<close> returns the sum of the token counts of: every string message
  content; every text block with a non-empty text; the JSON-serialized form of every
  truthy \<open>tool_use\<close> input; every \<open>tool_result\<close> content, the string itself when it
  is a string and its JSON-serialized form when it is an array; every system-prompt
  text (the string, or the text of every text item of a block array); and for each
  tool its non-empty name, its non-empty description and the JSON-serialized form of
  its truthy input schema. In particular, for the messages
  \<open>[{role: user, content: "Hello"}]\<close> with no system and no tools it returns exactly
  the tokenizer's count of \<open>Hello\<close>.
\<close>

theorem structural_count_is_sum:
  assumes "\<forall>m\<in>set messages0. \<forall>b\<in>set (message_blocks m). has_content b"
    and "\<forall>s\<in>set (request_texts counted_block_texts messages0 sys tools0).
           enc s = Some (count s)"
  shows "calculateTokenCount enc messages0 sys tools0 =
           Some (sum_list (map count (request_texts counted_block_texts messages0 sys tools0)))
       \<and> (\<forall>n. enc ''Hello'' = Some n \<longrightarrow>
            calculateTokenCount enc [\<lparr>role = ''user'', content = Text ''Hello''\<rparr>] None None
              = Some n)"
proof
  let ?ms = "concat (map (message_texts counted_block_texts) messages0)"
  let ?ts = "case tools0 of None \<Rightarrow> [] | Some ts \<Rightarrow> concat (map tool_texts ts)"
  have all: "\<forall>s\<in>set ?ms \<union> set (system_texts sys) \<union> set ?ts. enc s = Some (count s)"
    using assms(2) by (simp add: request_texts_def Un_assoc)
  have m: "count_messages enc messages0 0 = Some (0 + sum_list (map count ?ms))"
    using assms(1) all by (intro count_messages_sum) simp_all
  have s: "count_system enc sys (sum_list (map count ?ms)) =
             Some (sum_list (map count ?ms) + sum_list (map count (system_texts sys)))"
    using all by (intro count_system_sum) simp
  have t: "(case tools0 of
              None \<Rightarrow> Some (sum_list (map count ?ms) + sum_list (map count (system_texts sys)))
            | Some ts \<Rightarrow> count_tools enc ts
                (sum_list (map count ?ms) + sum_list (map count (system_texts sys))))
           = Some (sum_list (map count ?ms) + sum_list (map count (system_texts sys))
                   + sum_list (map count ?ts))"
  proof (cases tools0)
    case None
    then show ?thesis by simp
  next
    case (Some ts)
    have "\<forall>s\<in>set (concat (map tool_texts ts)). enc s = Some (count s)"
      using all Some by simp
    then show ?thesis using Some count_tools_sum [of ts enc count] by simp
  qed
  show "calculateTokenCount enc messages0 sys tools0 =
          Some (sum_list (map count (request_texts counted_block_texts messages0 sys tools0)))"
    using m s t by (simp add: calculateTokenCount_def request_texts_def)
next
  show "\<forall>n. enc ''Hello'' = Some n \<longrightarrow>
          calculateTokenCount enc [\<lparr>role = ''user'', content = Text ''Hello''\<rparr>] None None
            = Some n"
    by (simp add: calculateTokenCount_def count_message_def add_encoded_def count_system_def)
qed

theorem structural_count_is_sum_witness:
  "calculateTokenCount char_count_encoder
      [\<lparr>role = ''user'', content = Text ''Hello''\<rparr>,
       \<lparr>role = ''user'',
        content = Blocks
          [\<lparr>b_type = ''text'', b_text = Some ''Hi'', b_source = None, b_id = None,
            b_name = None, b_input = None, b_tool_use_id = None, b_content = None\<rparr>,
           \<lparr>b_type = ''tool_use'', b_text = None, b_source = None, b_id = Some ''toolu_1'',
            b_name = Some ''search'', b_input = Some (JObj [(''q'', JStr ''x'')]),
            b_tool_use_id = None, b_content = None\<rparr>,
           \<lparr>b_type = ''tool_result'', b_text = None, b_source = None, b_id = None,
            b_name = None, b_input = None, b_tool_use_id = Some ''toolu_1'',
            b_content = Some (TCText ''ok'')\<rparr>]\<rparr>]
      (Some (SysText ''Be brief''))
      (Some [\<lparr>t_name = Some ''search'', t_description = None, t_input_schema = None\<rparr>])
   = Some 32"
proof -
  define tx where "tx = \<lparr>b_type = ''text'', b_text = Some ''Hi'', b_source = None, b_id = None,
            b_name = None, b_input = None, b_tool_use_id = None, b_content = None\<rparr>"
  define tu where "tu = \<lparr>b_type = ''tool_use'', b_text = None, b_source = None,
            b_id = Some ''toolu_1'',
            b_name = Some ''search'', b_input = Some (JObj [(''q'', JStr ''x'')]),
            b_tool_use_id = None, b_content = None\<rparr>"
  define tr where "tr = \<lparr>b_type = ''tool_result'', b_text = None, b_source = None, b_id = None,
            b_name = None, b_input = None, b_tool_use_id = Some ''toolu_1'',
            b_content = Some (TCText ''ok'')\<rparr>"
  define ms where "ms = [\<lparr>role = ''user'', content = Text ''Hello''\<rparr>,
       \<lparr>role = ''user'', content = Blocks [tx, tu, tr]\<rparr>]"
  define sys where "sys = Some (SysText ''Be brief'')"
  define ts where "ts = Some [\<lparr>t_name = Some ''search'', t_description = None,
                               t_input_schema = None\<rparr>]"
  have h1: "\<forall>m\<in>set ms. \<forall>b\<in>set (message_blocks m). has_content b"
    by (simp add: ms_def message_blocks_def has_content_def tx_def tu_def tr_def)
  have h2: "\<forall>s\<in>set (request_texts counted_block_texts ms sys ts).
              char_count_encoder s = Some (length s)"
    by (simp add: char_count_encoder_def)
  have q: "JSON_stringify (JObj [(''q'', JStr ''x'')])
           = [CHR ''{'', CHR 0x22, CHR ''q'', CHR 0x22, CHR '':'', CHR 0x22, CHR ''x'',
              CHR 0x22, CHR ''}'']"
    by (simp add: quote_def)
  have texts: "request_texts counted_block_texts ms sys ts =
      [''Hello'', ''Hi'', JSON_stringify (JObj [(''q'', JStr ''x'')]), ''ok'', ''Be brief'',
       ''search'']"
    unfolding request_texts_def message_texts_def counted_block_texts_def system_texts_def
      tool_texts_def ms_def sys_def ts_def tx_def tu_def tr_def
    by (simp del: JSON_stringify.simps)
  have "calculateTokenCount char_count_encoder ms sys ts = Some 32"
    using structural_count_is_sum [OF h1 h2, THEN conjunct1] unfolding texts q by simp
  then show ?thesis
    unfolding ms_def sys_def ts_def tx_def tu_def tr_def .
qed

lemma countTokens_never_raises:
  "countTokens enc text = (case enc text of Some n \<Rightarrow> n | None \<Rightarrow> (length text + 3) div 4)"
  by (simp add: countTokens_def ceil_div4 split: option.split)

lemma estimateRequestTokens_fallback:
  "enc (JSON_stringify messages0) = None \<Longrightarrow>
     estimateRequestTokens enc messages0 = (length (JSON_stringify messages0) + 3) div 4"
  by (simp add: estimateRequestTokens_def countTokens_fallback)

lemma structural_count_raises:
  "enc s = None \<Longrightarrow>
     calculateTokenCount enc (\<lparr>role = r, content = Text s\<rparr> # rest) sys tools0 = None"
  by (simp add: calculateTokenCount_def count_message_def add_encoded_def)

text \<open>
  C6 (the code departs from the claim). \<open>countTokens\<close> catches a failure of the
  tokenizer and returns the character-based estimate, but \<open>calculateTokenCount\<close>
  calls the tokenizer outside any \<open>try\<close>: on a text the tokenizer rejects, the
  structural count raises instead of falling back. With a tokenizer that rejects the
  text \<open><|endoftext|>\<close> (13 characters), \<open>countTokens\<close> returns 4 and
  \<open>calculateTokenCount\<close> raises.
\<close>

theorem structural_count_raises_on_encoding_failure:
  "calculateTokenCount strict_encoder
      [\<lparr>role = ''user'', content = Text ''<|endoftext|>''\<rparr>] None None = None
   \<and> countTokens strict_encoder ''<|endoftext|>'' = 4"
proof
  show "calculateTokenCount strict_encoder
      [\<lparr>role = ''user'', content = Text ''<|endoftext|>''\<rparr>] None None = None"
    by (simp add: calculateTokenCount_def count_message_def add_encoded_def strict_encoder_def)
next
  have "nat \<lceil>real (length ''<|endoftext|>'') / 4\<rceil> = 4"
    by simp
  then show "countTokens strict_encoder ''<|endoftext|>'' = 4"
    by (simp add: countTokens_def strict_encoder_def)
qed

section \<open>Properties of the tool-call ID normalizer\<close>

lemma fit9_length: "length (fit9 side pad s) = 9"
  by (cases side) (simp_all add: fit9_def)

lemma base36_length:
  "0 < k \<Longrightarrow> n < 36 ^ k \<Longrightarrow> length (base36 n) \<le> k"
proof (induction k arbitrary: n)
  case 0
  then show ?case by simp
next
  case (Suc k)
  show ?case
  proof (cases "n < 36")
    case True
    then show ?thesis by (simp add: base36.simps [of n])
  next
    case False
    then have k: "0 < k" using Suc.prems(2) by (cases k) auto
    have "n div 36 < 36 ^ k"
      using Suc.prems(2) by (simp add: less_mult_imp_div_less mult.commute)
    then have "length (base36 (n div 36)) \<le> k" using Suc.IH k by blast
    then show ?thesis using False by (simp add: base36.simps [of n])
  qed
qed

lemma base36_hash_length: "length (base36 (unat (w :: 32 word))) \<le> 7"
proof -
  have "unat w < 2 ^ 32" using unsigned_less [of w] by simp
  also have "(2::nat) ^ 32 < 36 ^ 7" by simp
  finally show ?thesis using base36_length [of 7 "unat w"] by simp
qed

text \<open>
  C3. The short ID of a string \<open>s\<close> is \<open>base36(fnv1a_32(s))\<close> truncated/padded to
  nine characters, and its length is exactly 9, whatever the padding character and
  side. The forward mapping is a function of \<open>s\<close> alone, so normalizing \<open>s\<close> twice
  yields the same short ID.
\<close>

theorem shortId_is_nine_characters:
  "shortId side pad s = fit9 side pad (base36 (unat (fnv1a_32 s)))
   \<and> length (shortId side pad s) = 9"
  unfolding shortId_def by (simp add: fit9_length)

lemma shortId_never_truncates:
  "shortId PadStart pad s =
     replicate (9 - length (base36 (unat (fnv1a_32 s)))) pad @ base36 (unat (fnv1a_32 s))"
  using base36_hash_length [of "fnv1a_32 s"] by (simp add: shortId_def fit9_def)

end
